theory Spec2Isabelle
  imports Main "HOL-Library.Word" "HOL-Library.AList"
begin

section \<open>JavaScript values\<close>

text \<open>
  The page handles values whose static type is \<open>unknown\<close>: field values of an entry, and
  whatever the draft store returns.  They are modelled by one datatype.  A \<open>Date\<close> is its
  time stamp (or invalid), a \<open>Uint8Array\<close> a list of bytes, a \<open>Map\<close> its entries in
  insertion order, a plain object its properties.
\<close>

type_synonym bytes = "8 word list"

datatype jsval =
    JUndefined
  | JNull
  | JBool bool
  | JNum int
  | JStr string
  | JDate int
  | JInvalidDate
  | JBytes bytes
  | JMap "(jsval \<times> jsval) list"
  | JObj "(string \<times> jsval) list"

text \<open>\<open>Record<string, unknown>\<close>: the state of an entry, one value per top-level field.\<close>

type_synonym entry_state = "(string \<times> jsval) list"

text \<open>Property read \<open>o[k]\<close> on a record: \<open>undefined\<close> when the property is missing.\<close>

definition js_index :: "entry_state \<Rightarrow> string \<Rightarrow> jsval" where
  "js_index obj k = (case map_of obj k of None \<Rightarrow> JUndefined | Some v \<Rightarrow> v)"

text \<open>The operator \<open>a ?? b\<close>: \<open>b\<close> when \<open>a\<close> is \<open>null\<close> or \<open>undefined\<close>.\<close>

definition nullish :: "jsval \<Rightarrow> bool" where
  "nullish v = (v = JUndefined \<or> v = JNull)"

definition nullish_coalesce :: "jsval \<Rightarrow> jsval \<Rightarrow> jsval" where
  "nullish_coalesce a b = (if nullish a then b else a)"

text \<open>The test \<open>!raw\<close>.\<close>

fun falsy :: "jsval \<Rightarrow> bool" where
  "falsy JUndefined = True"
| "falsy JNull = True"
| "falsy (JBool b) = (\<not> b)"
| "falsy (JNum n) = (n = 0)"
| "falsy (JStr s) = (s = [])"
| "falsy _ = False"

text \<open>
  \<open>new Map(entries)\<close>: a later entry with a key already present replaces the value and
  keeps the key's position; a new key goes to the end.
\<close>

definition new_Map :: "('k \<times> 'v) list \<Rightarrow> ('k \<times> 'v) list" where
  "new_Map entries = fold (\<lambda>(k, v) m. AList.update k v m) entries []"

section \<open>Configuration and imported operations\<close>

record 'f singleton_config =
  label :: string
  schema :: "(string \<times> 'f) list"

record 'f config =
  singletons :: "string \<rightharpoonup> 'f singleton_config"

text \<open>
  The functions the page imports from other modules (\<open>../form/initial-values\<close>,
  \<open>./useHasChanged\<close>, \<open>./updating\<close>, \<open>./useItemData\<close>, \<open>./utils\<close>) are parameters of the
  model; \<open>'f\<close> is the type of a field schema, \<open>'fmt\<close> the format information of an entry.
  \<open>getInitialPropsValue_object s\<close> stands for \<open>getInitialPropsValue(fields.object(s))\<close>;
  the schema argument of \<open>useHasChanged\<close> stands for \<open>fields.object(s)\<close> as well, its slug
  field is always \<open>undefined\<close> here.  \<open>parseEntry\<close> returns the \<open>initialState\<close> of its
  result, or \<open>Inl\<close> the message of the error it throws.
\<close>

record ('f, 'fmt) deps =
  getInitialPropsValue :: "'f \<Rightarrow> jsval"
  getInitialPropsValue_object :: "(string \<times> 'f) list \<Rightarrow> entry_state"
  useHasChanged :: "entry_state option \<Rightarrow> entry_state \<Rightarrow> (string \<times> 'f) list \<Rightarrow> bool"
  getSingletonPath :: "'f config \<Rightarrow> string \<Rightarrow> string"
  getSingletonFormat :: "'f config \<Rightarrow> string \<Rightarrow> 'fmt"
  serializeEntryToFiles ::
    "string \<Rightarrow> 'f config \<Rightarrow> 'fmt \<Rightarrow> (string \<times> 'f) list \<Rightarrow> entry_state \<Rightarrow> (string \<times> bytes) list"
  parseEntry ::
    "'f config \<Rightarrow> string \<Rightarrow> 'fmt \<Rightarrow> (string \<times> 'f) list \<Rightarrow> (string \<times> bytes) list
      \<Rightarrow> string + entry_state"

section \<open>The draft record and its validation\<close>

text \<open>The output type of \<open>storedValSchema\<close>.\<close>

record stored_val =
  sv_version :: int
  sv_savedAt :: int
  sv_beforeTreeKey :: "string option"
  sv_files :: "(string \<times> bytes) list"

text \<open>\<open>z.literal(1)\<close>, \<open>z.date()\<close>, \<open>z.string().optional()\<close>; \<open>None\<close> is a validation issue.\<close>

fun z_literal_1 :: "jsval \<Rightarrow> int option" where
  "z_literal_1 (JNum n) = (if n = 1 then Some 1 else None)"
| "z_literal_1 _ = None"

fun z_date :: "jsval \<Rightarrow> int option" where
  "z_date (JDate t) = Some t"
| "z_date _ = None"

fun z_string_optional :: "jsval \<Rightarrow> string option option" where
  "z_string_optional JUndefined = Some None"
| "z_string_optional (JStr s) = Some (Some s)"
| "z_string_optional _ = None"

text \<open>\<open>z.map(z.string(), z.instanceof(Uint8Array))\<close>.\<close>

fun z_map_entry :: "jsval \<times> jsval \<Rightarrow> (string \<times> bytes) option" where
  "z_map_entry (JStr k, JBytes b) = Some (k, b)"
| "z_map_entry _ = None"

fun z_map_string_bytes :: "jsval \<Rightarrow> (string \<times> bytes) list option" where
  "z_map_string_bytes (JMap es) = those (map z_map_entry es)"
| "z_map_string_bytes _ = None"

text \<open>
  \<open>storedValSchema.parse(raw)\<close>: the input must be a plain object; each property of the
  shape is read (a missing one reads as \<open>undefined\<close>) and validated; other properties are
  dropped.  \<open>None\<close> stands for the \<open>ZodError\<close> that \<open>parse\<close> throws.
\<close>

fun storedValSchema_parse :: "jsval \<Rightarrow> stored_val option" where
  "storedValSchema_parse (JObj ps) =
     (case z_literal_1 (js_index ps ''version'') of
        None \<Rightarrow> None
      | Some v \<Rightarrow>
     (case z_date (js_index ps ''savedAt'') of
        None \<Rightarrow> None
      | Some t \<Rightarrow>
     (case z_string_optional (js_index ps ''beforeTreeKey'') of
        None \<Rightarrow> None
      | Some k \<Rightarrow>
     (case z_map_string_bytes (js_index ps ''files'') of
        None \<Rightarrow> None
      | Some fs \<Rightarrow>
          Some \<lparr>sv_version = v, sv_savedAt = t, sv_beforeTreeKey = k, sv_files = fs\<rparr>))))"
| "storedValSchema_parse _ = None"

section \<open>The draft store\<close>

text \<open>
  Modelled from the spec: the module \<open>./persistence\<close> (\<open>getDraft\<close>, \<open>setDraft\<close>,
  \<open>delDraft\<close>) is not part of the sources.  The spec gives the Draft Store as a key/value
  store with \<open>get(identityKey) -> DraftRecord | undefined\<close>, \<open>set(identityKey, DraftRecord)\<close>
  and \<open>delete(identityKey)\<close>, one draft per key, a write replacing the draft of that key.
  Keys are the tuples the page builds.
\<close>

type_synonym draft_store = "string list \<rightharpoonup> jsval"

definition getDraft :: "string list \<Rightarrow> draft_store \<Rightarrow> jsval option" where
  "getDraft key store = store key"

definition setDraft :: "string list \<Rightarrow> jsval \<Rightarrow> draft_store \<Rightarrow> draft_store" where
  "setDraft key val store = store(key \<mapsto> val)"

definition delDraft :: "string list \<Rightarrow> draft_store \<Rightarrow> draft_store" where
  "delDraft key store = store(key := None)"

section \<open>LocalSingletonPage\<close>

record 'f singleton_page_props =
  singleton :: string
  config :: "'f config"
  initialState :: "entry_state option"
  initialFiles :: "string list"
  localTreeKey :: "string option"

text \<open>The \<open>draft\<close> prop, when it is not \<open>undefined\<close>.\<close>

record draft =
  draft_state :: entry_state
  draft_savedAt :: int
  draft_treeKey :: "string option"

text \<open>The value held by \<open>useState\<close>.\<close>

record local_state =
  st_localTreeKey :: "string option"
  st_state :: entry_state

datatype toast = ShowDraftRestoredToast int bool

text \<open>
  \<open>initialState === null ? getInitialPropsValue(schema) : initialState\<close>, the expression
  used by the initialiser, by the reset on a change of tree key and by \<open>onReset\<close>.
  In the page functions \<open>sc\<close> is the constant \<open>singletonConfig\<close>, that is
  \<open>config.singletons![singleton]!\<close>, which the wrapper has checked to exist.
\<close>

definition committed_or_default ::
  "('f, 'fmt) deps \<Rightarrow> 'f singleton_config \<Rightarrow> 'f singleton_page_props \<Rightarrow> entry_state" where
  "committed_or_default d sc props =
     (case initialState props of
        None \<Rightarrow> getInitialPropsValue_object d (schema sc)
      | Some s \<Rightarrow> s)"

text \<open>The initialiser of \<open>useState\<close>: \<open>draft?.state ?? (...)\<close>.\<close>

definition initial_local_state ::
  "('f, 'fmt) deps \<Rightarrow> 'f singleton_config \<Rightarrow> 'f singleton_page_props \<Rightarrow> draft option
    \<Rightarrow> local_state" where
  "initial_local_state d sc props dr =
     \<lparr>st_localTreeKey = localTreeKey props,
      st_state = (case dr of
                    Some x \<Rightarrow> draft_state x
                  | None \<Rightarrow> committed_or_default d sc props)\<rparr>"

text \<open>
  The effect on \<open>[draft]\<close>.  The source compares \<open>state === draft.state\<close> by reference;
  when the effect runs after the first render, \<open>state\<close> is the object the initialiser took
  from the draft.
\<close>

definition draft_restored_effect ::
  "'f singleton_page_props \<Rightarrow> local_state \<Rightarrow> draft option \<Rightarrow> toast option" where
  "draft_restored_effect props st dr =
     (case dr of
        None \<Rightarrow> None
      | Some x \<Rightarrow>
          if st_state st = draft_state x
          then Some (ShowDraftRestoredToast (draft_savedAt x) (localTreeKey props \<noteq> draft_treeKey x))
          else None)"

text \<open>
  The body of the component after \<open>useState\<close>: when the tree key kept in the state is not
  the one of the props, the state is replaced.
\<close>

definition render_local_state ::
  "('f, 'fmt) deps \<Rightarrow> 'f singleton_config \<Rightarrow> 'f singleton_page_props \<Rightarrow> local_state
    \<Rightarrow> local_state" where
  "render_local_state d sc props st =
     (if st_localTreeKey st \<noteq> localTreeKey props
      then \<lparr>st_localTreeKey = localTreeKey props, st_state = committed_or_default d sc props\<rparr>
      else st)"

definition isCreating :: "'f singleton_page_props \<Rightarrow> bool" where
  "isCreating props = (initialState props = None)"

definition hasChanged ::
  "('f, 'fmt) deps \<Rightarrow> 'f singleton_config \<Rightarrow> 'f singleton_page_props \<Rightarrow> entry_state \<Rightarrow> bool" where
  "hasChanged d sc props s =
     (useHasChanged d (initialState props) s (schema sc) \<or> isCreating props)"

text \<open>The key of a singleton's draft.\<close>

definition draft_key :: "string \<Rightarrow> string list" where
  "draft_key sgl = [''singleton'', sgl]"

definition serialized_files ::
  "('f, 'fmt) deps \<Rightarrow> 'f singleton_config \<Rightarrow> 'f singleton_page_props \<Rightarrow> entry_state
    \<Rightarrow> (string \<times> bytes) list" where
  "serialized_files d sc props s =
     new_Map (serializeEntryToFiles d
       (getSingletonPath d (config props) (singleton props))
       (config props)
       (getSingletonFormat d (config props) (singleton props))
       (schema sc) s)"

text \<open>The object literal \<open>data\<close> of the autosave effect.\<close>

definition draft_data :: "string option \<Rightarrow> (string \<times> bytes) list \<Rightarrow> int \<Rightarrow> jsval" where
  "draft_data treeKey files now =
     JObj [(''beforeTreeKey'', (case treeKey of None \<Rightarrow> JUndefined | Some k \<Rightarrow> JStr k)),
           (''files'', JMap (map (\<lambda>(p, c). (JStr p, JBytes c)) files)),
           (''savedAt'', JDate now),
           (''version'', JNum 1)]"

text \<open>The autosave effect; \<open>now\<close> is the time stamp of \<open>new Date()\<close>.\<close>

definition autosave_effect ::
  "('f, 'fmt) deps \<Rightarrow> 'f singleton_config \<Rightarrow> 'f singleton_page_props \<Rightarrow> entry_state \<Rightarrow> int
    \<Rightarrow> draft_store \<Rightarrow> draft_store" where
  "autosave_effect d sc props s now store =
     (let key = draft_key (singleton props) in
      if hasChanged d sc props s
      then setDraft key (draft_data (localTreeKey props) (serialized_files d sc props s) now) store
      else delDraft key store)"

text \<open>\<open>onReset\<close> of the local page.\<close>

definition local_onReset ::
  "('f, 'fmt) deps \<Rightarrow> 'f singleton_config \<Rightarrow> 'f singleton_page_props \<Rightarrow> local_state" where
  "local_onReset d sc props =
     \<lparr>st_localTreeKey = localTreeKey props, st_state = committed_or_default d sc props\<rparr>"

text \<open>
  Mounting the page: the first render (the state is the initial one, whose tree key is the
  one of the props) and then the two effects, in the order of the source.
\<close>

definition mount_local ::
  "('f, 'fmt) deps \<Rightarrow> 'f singleton_config \<Rightarrow> 'f singleton_page_props \<Rightarrow> draft option \<Rightarrow> int
    \<Rightarrow> draft_store \<Rightarrow> local_state \<times> toast option \<times> draft_store" where
  "mount_local d sc props dr now store =
     (let st = render_local_state d sc props (initial_local_state d sc props dr)
      in (st, draft_restored_effect props st dr,
          autosave_effect d sc props (st_state st) now store))"

section \<open>SingletonPageInner\<close>

text \<open>
  Modelled from the spec: the type of the update result is declared in \<open>./updating\<close>,
  which is not part of the sources.  The spec gives it as the tagged variant
  \<open>idle | loading | error(message) | needs-new-branch(reason, branchOid) | needs-fork\<close>.
  The page reads \<open>kind\<close>, \<open>error.message\<close> and \<open>reason\<close> of it.
\<close>

datatype update_result =
    Idle
  | Loading
  | UpdateError string
  | NeedsNewBranch string string
  | NeedsFork

text \<open>
  What an event handler of the page does, in order: the calls it makes on the props
  \<open>onUpdate\<close>, \<open>onResetUpdateItem\<close> and \<open>onReset\<close>, on the router and on its own state.
  \<open>OnUpdate\<close> carries the argument of the call: \<open>None\<close> for \<open>onUpdate()\<close>, and
  \<open>Some (branch, sha)\<close> for \<open>onUpdate({ branch, sha })\<close>.
\<close>

datatype page_action =
    SetForceValidation bool
  | OnUpdate "(string \<times> string) option"
  | OnResetUpdateItem
  | OnReset
  | RouterPush string

text \<open>
  The props and hook values \<open>SingletonPageInner\<close> works with: \<open>baseCommit\<close> is the value of
  \<open>useBaseCommit()\<close>, \<open>schemaValid\<close> the value of
  \<open>clientSideValidateProp(schema, props.state, undefined)\<close>, \<open>isGitHub\<close> the value of
  \<open>isGitHubConfig(props.config)\<close>.
\<close>

record inner_props =
  ip_singleton :: string
  ip_updateResult :: update_result
  ip_hasChanged :: bool
  ip_state :: entry_state
  ip_baseCommit :: string
  ip_schemaValid :: bool
  ip_isGitHub :: bool

definition onCreate :: "inner_props \<Rightarrow> page_action list" where
  "onCreate p =
     (if ip_updateResult p = Loading \<or> \<not> ip_hasChanged p then []
      else if \<not> ip_schemaValid p then [SetForceValidation True]
      else [OnUpdate None])"

text \<open>
  \<open>onCreate\<close> of the \<open>CreateBranchDuringUpdateDialog\<close>; \<open>enc\<close> is \<open>encodeURIComponent\<close>.
\<close>

definition branch_dialog_onCreate ::
  "(string \<Rightarrow> string) \<Rightarrow> inner_props \<Rightarrow> string \<Rightarrow> page_action list" where
  "branch_dialog_onCreate enc p newBranch =
     [RouterPush (''/keystatic/branch/'' @ enc newBranch @ ''/singleton/'' @ enc (ip_singleton p)),
      OnUpdate (Some (newBranch, ip_baseCommit p))]"

text \<open>The props the branch dialog is rendered with: \<open>branchOid\<close> and \<open>reason\<close>.\<close>

record branch_dialog =
  bd_branchOid :: string
  bd_reason :: string

definition rendered_branch_dialog :: "inner_props \<Rightarrow> branch_dialog option" where
  "rendered_branch_dialog p =
     (case ip_updateResult p of
        NeedsNewBranch reason oid \<Rightarrow> Some \<lparr>bd_branchOid = ip_baseCommit p, bd_reason = reason\<rparr>
      | _ \<Rightarrow> None)"

definition fork_dialog_rendered :: "inner_props \<Rightarrow> bool" where
  "fork_dialog_rendered p = (ip_updateResult p = NeedsFork \<and> ip_isGitHub p)"

text \<open>
  The events of the rendered page.  A dialog's events exist only while the dialog is
  rendered; the menu item \<open>reset\<close> is disabled unless \<open>hasChanged\<close>.  An event the rendered
  page cannot receive does nothing.
\<close>

datatype page_event =
    FormSubmit
  | MenuReset
  | BranchDialogCreate string
  | BranchDialogDismiss
  | ForkDialogCreate
  | ForkDialogDismiss

fun handle_event :: "(string \<Rightarrow> string) \<Rightarrow> inner_props \<Rightarrow> page_event \<Rightarrow> page_action list" where
  "handle_event enc p FormSubmit = onCreate p"
| "handle_event enc p MenuReset = (if ip_hasChanged p then [OnReset] else [])"
| "handle_event enc p (BranchDialogCreate newBranch) =
     (if rendered_branch_dialog p \<noteq> None then branch_dialog_onCreate enc p newBranch else [])"
| "handle_event enc p BranchDialogDismiss =
     (if rendered_branch_dialog p \<noteq> None then [OnResetUpdateItem] else [])"
| "handle_event enc p ForkDialogCreate =
     (if fork_dialog_rendered p then [OnUpdate None] else [])"
| "handle_event enc p ForkDialogDismiss =
     (if fork_dialog_rendered p then [OnResetUpdateItem] else [])"

section \<open>The update coordinator\<close>

text \<open>
  Modelled from the spec: the hook \<open>useUpsertItem\<close> of \<open>./updating\<close>, which gives the page
  \<open>updateResult\<close>, \<open>update\<close> and \<open>resetUpdateItem\<close>, is not part of the sources.  The spec
  (4.4) gives it as the state machine \<open>idle -> loading -> { idle | error |
  needs-new-branch | needs-fork }\<close>.  \<open>update(options?)\<close> is a no-op if already loading;
  otherwise it serializes the current editable state to files and submits them to the
  backing store, on the current branch or with the \<open>branch\<close>/\<open>sha\<close> override, and the result
  is loading; a retry after branch creation or fork reuses the already-serialized state.
  The answer of the store is classified: success gives idle, branch divergence
  \<open>needs-new-branch(reason, branchOid)\<close>, insufficient permission \<open>needs-fork\<close>, any other
  failure \<open>error(message)\<close>.  \<open>reset\<close> takes a terminal, error or dialog state back to idle;
  it does not cancel a submit in flight.
\<close>

datatype commit_response =
    CommitSuccess
  | BranchDiverged string string
  | NeedsForkResponse
  | CommitFailed string

record commit_request =
  cr_override :: "(string \<times> string) option"
  cr_files :: "(string \<times> bytes) list"

text \<open>
  The coordinator: its result, the commit requests sent to the backing store so far, the
  number of them the store has answered, and the files serialized by the last submit.
\<close>

record coordinator =
  co_result :: update_result
  co_sent :: "commit_request list"
  co_answered :: nat
  co_serialized :: "(string \<times> bytes) list option"

definition initial_coordinator :: coordinator where
  "initial_coordinator =
     \<lparr>co_result = Idle, co_sent = [], co_answered = 0, co_serialized = None\<rparr>"

definition in_flight :: "coordinator \<Rightarrow> nat" where
  "in_flight c = length (co_sent c) - co_answered c"

fun classify :: "commit_response \<Rightarrow> update_result" where
  "classify CommitSuccess = Idle"
| "classify (BranchDiverged reason branchOid) = NeedsNewBranch reason branchOid"
| "classify NeedsForkResponse = NeedsFork"
| "classify (CommitFailed message) = UpdateError message"

fun is_dialog_state :: "update_result \<Rightarrow> bool" where
  "is_dialog_state (NeedsNewBranch reason branchOid) = True"
| "is_dialog_state NeedsFork = True"
| "is_dialog_state _ = False"

text \<open>
  \<open>update\<close>, called with the override and with the \<open>state\<close> the page has passed to
  \<open>useUpsertItem\<close> in the render the call is made from; \<open>ser\<close> is the serialization of a
  state to files.
\<close>

definition update ::
  "(entry_state \<Rightarrow> (string \<times> bytes) list) \<Rightarrow> (string \<times> string) option \<Rightarrow> entry_state
    \<Rightarrow> coordinator \<Rightarrow> coordinator" where
  "update ser ov s c =
     (if co_result c = Loading then c
      else
        let files = (case co_serialized c of
                       Some fs \<Rightarrow> if is_dialog_state (co_result c) then fs else ser s
                     | None \<Rightarrow> ser s)
        in c\<lparr>co_result := Loading,
             co_sent := co_sent c @ [\<lparr>cr_override = ov, cr_files = files\<rparr>],
             co_serialized := Some files\<rparr>)"

definition resetUpdateItem :: "coordinator \<Rightarrow> coordinator" where
  "resetUpdateItem c = (if co_result c = Loading then c else c\<lparr>co_result := Idle\<rparr>)"

definition store_answers :: "commit_response \<Rightarrow> coordinator \<Rightarrow> coordinator" where
  "store_answers r c =
     (if co_answered c < length (co_sent c)
      then c\<lparr>co_result := classify r, co_answered := co_answered c + 1\<rparr>
      else c)"

text \<open>
  The page and the coordinator together.  The actions of a handler reach the coordinator
  in order: \<open>onUpdate\<close> is \<open>update\<close>, with the state of the render the handler belongs to
  (\<open>LocalSingletonPage\<close> and \<open>CollabSingletonPage\<close> pass the same \<open>state\<close> to
  \<open>useUpsertItem\<close> and to \<open>SingletonPageInner\<close>), and \<open>onResetUpdateItem\<close> is
  \<open>resetUpdateItem\<close>.  An event comes with the props of the render it is handled by; that
  render is the current one when its \<open>updateResult\<close> is the result of the coordinator.
\<close>

fun apply_action ::
  "(entry_state \<Rightarrow> (string \<times> bytes) list) \<Rightarrow> entry_state \<Rightarrow> coordinator \<Rightarrow> page_action
    \<Rightarrow> coordinator" where
  "apply_action ser s c (OnUpdate ov) = update ser ov s c"
| "apply_action ser s c OnResetUpdateItem = resetUpdateItem c"
| "apply_action ser s c _ = c"

datatype sys_event = PageEvent inner_props page_event | StoreAnswer commit_response

fun sys_step ::
  "(string \<Rightarrow> string) \<Rightarrow> (entry_state \<Rightarrow> (string \<times> bytes) list) \<Rightarrow> coordinator \<Rightarrow> sys_event
    \<Rightarrow> coordinator" where
  "sys_step enc ser c (PageEvent p ev) =
     foldl (apply_action ser (ip_state p)) c (handle_event enc p ev)"
| "sys_step enc ser c (StoreAnswer r) = store_answers r c"

definition sys_run ::
  "(string \<Rightarrow> string) \<Rightarrow> (entry_state \<Rightarrow> (string \<times> bytes) list) \<Rightarrow> sys_event list
    \<Rightarrow> coordinator" where
  "sys_run enc ser evs = foldl (sys_step enc ser) initial_coordinator evs"

text \<open>
  The coordinator is consistent when at most one request is unanswered, and one is
  exactly while the result is loading.
\<close>

definition coordinator_ok :: "coordinator \<Rightarrow> bool" where
  "coordinator_ok c =
     (co_answered c \<le> length (co_sent c) \<and> length (co_sent c) \<le> co_answered c + 1
      \<and> (co_result c = Loading) = (co_answered c < length (co_sent c)))"

section \<open>The collaborative document\<close>

text \<open>
  A \<open>Y.Doc\<close> as far as the page uses it: the entries of its map \<open>data\<close>, and the
  transactions run on it, each the list of the writes made inside one call of
  \<open>transact\<close>.  \<open>'y\<close> is the type of the values \<open>getYjsValFromParsedValue\<close> makes.
\<close>

datatype 'y ywrite = YSet string 'y

record 'y ydoc =
  ydata :: "(string \<times> 'y) list"
  ytransactions :: "'y ywrite list list"

definition y_new_doc :: "'y ydoc" where
  "y_new_doc = \<lparr>ydata = [], ytransactions = []\<rparr>"

fun y_apply :: "'y ywrite \<Rightarrow> (string \<times> 'y) list \<Rightarrow> (string \<times> 'y) list" where
  "y_apply (YSet k v) m = AList.update k v m"

definition transact :: "'y ywrite list \<Rightarrow> 'y ydoc \<Rightarrow> 'y ydoc" where
  "transact ws doc =
     \<lparr>ydata = fold y_apply ws (ydata doc), ytransactions = ytransactions doc @ [ws]\<rparr>"

text \<open>The loaded value of \<open>useItemData\<close>.\<close>

record loaded_item =
  li_initialState :: entry_state
  li_initialFiles :: "string list"
  li_localTreeKey :: "string option"

datatype item_data = NotFound | Found loaded_item

text \<open>
  The value the seeding loop converts for a field:
  \<open>itemData.data === 'not-found' ? getInitialPropsValue(value) : itemData.data.initialState[key]\<close>.
\<close>

definition seed_value :: "('f, 'fmt) deps \<Rightarrow> item_data \<Rightarrow> string \<Rightarrow> 'f \<Rightarrow> jsval" where
  "seed_value d item key value =
     (case item of
        NotFound \<Rightarrow> getInitialPropsValue d value
      | Found l \<Rightarrow> js_index (li_initialState l) key)"

text \<open>
  The writes of the seeding loop over \<open>Object.entries(singletonConfig.schema)\<close>;
  \<open>toY\<close> is \<open>getYjsValFromParsedValue\<close>.
\<close>

definition seed_writes ::
  "('f, 'fmt) deps \<Rightarrow> ('f \<Rightarrow> jsval \<Rightarrow> 'y) \<Rightarrow> (string \<times> 'f) list \<Rightarrow> item_data \<Rightarrow> 'y ywrite list" where
  "seed_writes d toY sch item =
     map (\<lambda>(key, value). YSet key (toY value (seed_value d item key value))) sch"

text \<open>\<open>if (!data.size) doc.transact(...)\<close>.\<close>

definition seed_if_empty ::
  "('f, 'fmt) deps \<Rightarrow> ('f \<Rightarrow> jsval \<Rightarrow> 'y) \<Rightarrow> (string \<times> 'f) list \<Rightarrow> item_data \<Rightarrow> 'y ydoc \<Rightarrow> 'y ydoc" where
  "seed_if_empty d toY sch item doc =
     (if length (ydata doc) = 0 then transact (seed_writes d toY sch item) doc else doc)"

text \<open>
  The callback of \<open>mapData\<close> once the session is synced and the item is loaded:
  \<open>registry\<close> is \<open>yjsInfo.data\<close>, \<open>key\<close> is \<open>`${branch}/${singleton}`\<close>.  A document found
  under the key is loaded and used; otherwise a new one is made and registered.  The
  result is the registry and the document after seeding.
\<close>

definition collab_key :: "string \<Rightarrow> string \<Rightarrow> string" where
  "collab_key branch sgl = branch @ ''/'' @ sgl"

definition open_collab_doc ::
  "('f, 'fmt) deps \<Rightarrow> ('f \<Rightarrow> jsval \<Rightarrow> 'y) \<Rightarrow> (string \<times> 'f) list \<Rightarrow> item_data \<Rightarrow> string
    \<Rightarrow> (string \<rightharpoonup> 'y ydoc) \<Rightarrow> (string \<rightharpoonup> 'y ydoc) \<times> 'y ydoc" where
  "open_collab_doc d toY sch item key registry =
     (let doc = (case registry key of Some doc \<Rightarrow> doc | None \<Rightarrow> y_new_doc);
          doc' = seed_if_empty d toY sch item doc
      in (registry(key \<mapsto> doc'), doc'))"

text \<open>
  \<open>onReset\<close> of the collaborative page: the writes of its loop, with
  \<open>props.initialState?.[key] ?? getInitialPropsValue(value)\<close>, and what it does, in order.
\<close>

definition reset_writes ::
  "('f, 'fmt) deps \<Rightarrow> ('f \<Rightarrow> jsval \<Rightarrow> 'y) \<Rightarrow> (string \<times> 'f) list \<Rightarrow> entry_state option \<Rightarrow> 'y ywrite list" where
  "reset_writes d toY sch init =
     map (\<lambda>(key, value).
            YSet key (toY value
              (nullish_coalesce
                 (case init of None \<Rightarrow> JUndefined | Some s \<Rightarrow> js_index s key)
                 (getInitialPropsValue d value)))) sch"

datatype 'y collab_action = Transact "'y ywrite list" | AwaitWhenSynced | WindowReload

definition collab_onReset ::
  "('f, 'fmt) deps \<Rightarrow> ('f \<Rightarrow> jsval \<Rightarrow> 'y) \<Rightarrow> (string \<times> 'f) list \<Rightarrow> entry_state option
    \<Rightarrow> 'y collab_action list" where
  "collab_onReset d toY sch init =
     [Transact (reset_writes d toY sch init), AwaitWhenSynced, WindowReload]"

section \<open>SingletonPageWrapper\<close>

text \<open>The result of \<open>useData\<close>.\<close>

datatype 'a data_state = DataLoading | DataLoaded 'a | DataError string

text \<open>
  The callback of \<open>draftData\<close>: \<open>Inl\<close> is the message of the error thrown, which \<open>useData\<close>
  turns into the kind \<open>error\<close>.
\<close>

definition load_draft ::
  "('f, 'fmt) deps \<Rightarrow> 'f config \<Rightarrow> 'f singleton_config \<Rightarrow> string \<Rightarrow> draft_store \<Rightarrow> string + draft" where
  "load_draft d cfg sc sgl store =
     (case getDraft (draft_key sgl) store of
        None \<Rightarrow> Inl ''No draft found''
      | Some raw \<Rightarrow>
          if falsy raw then Inl ''No draft found''
          else
            (case storedValSchema_parse raw of
               None \<Rightarrow> Inl ''ZodError''
             | Some stored \<Rightarrow>
                 (case parseEntry d cfg (getSingletonPath d cfg sgl) (getSingletonFormat d cfg sgl)
                         (schema sc) (sv_files stored) of
                    Inl e \<Rightarrow> Inl e
                  | Inr parsed \<Rightarrow>
                      Inr \<lparr>draft_state = parsed, draft_savedAt = sv_savedAt stored,
                           draft_treeKey = sv_beforeTreeKey stored\<rparr>)))"

definition draftData :: "string + draft \<Rightarrow> draft data_state" where
  "draftData r = (case r of Inl e \<Rightarrow> DataError e | Inr x \<Rightarrow> DataLoaded x)"

text \<open>What the wrapper renders.\<close>

datatype ('f, 'y) view =
    NotFoundView
  | ErrorView string
  | LoadingView
  | CollabView "'f singleton_page_props" "'y ydoc"
  | LocalView "'f singleton_page_props" "draft option"

definition page_props :: "'f config \<Rightarrow> string \<Rightarrow> item_data \<Rightarrow> 'f singleton_page_props" where
  "page_props cfg sgl item =
     \<lparr>singleton = sgl, config = cfg,
      initialState = (case item of NotFound \<Rightarrow> None | Found l \<Rightarrow> Some (li_initialState l)),
      initialFiles = (case item of NotFound \<Rightarrow> [] | Found l \<Rightarrow> li_initialFiles l),
      localTreeKey = (case item of NotFound \<Rightarrow> None | Found l \<Rightarrow> li_localTreeKey l)\<rparr>"

text \<open>
  The wrapper, from the values of its three data hooks; \<open>mapData\<close> is loaded with
  \<open>None\<close> when there is no collaboration session.  \<open>branch\<close> is
  \<open>branchInfo.currentBranch\<close>: the wrapper uses it for the key of the collaborative
  document only.  \<open>singletons cfg\<close> holds the singletons the configuration declares; the
  source reads \<open>config.singletons?.[name]\<close>, so a name that \<open>Object.prototype\<close> defines
  (such as \<open>constructor\<close>) passes its test and is not sent to \<open>notFound()\<close>.  Here such a
  name is not configured and gives \<open>NotFoundView\<close>; every statement below is about a
  configured singleton.
\<close>

definition SingletonPageWrapper ::
  "'f config \<Rightarrow> string \<Rightarrow> string \<Rightarrow> draft data_state \<Rightarrow> item_data data_state
    \<Rightarrow> 'y ydoc option data_state \<Rightarrow> ('f, 'y) view" where
  "SingletonPageWrapper cfg sgl branch dd itemData mapData =
     (case singletons cfg sgl of
        None \<Rightarrow> NotFoundView
      | Some sc \<Rightarrow>
          (case itemData of
             DataError e \<Rightarrow> ErrorView e
           | DataLoading \<Rightarrow> (case mapData of DataError e \<Rightarrow> ErrorView e | _ \<Rightarrow> LoadingView)
           | DataLoaded item \<Rightarrow>
               (case mapData of
                  DataError e \<Rightarrow> ErrorView e
                | DataLoading \<Rightarrow> LoadingView
                | DataLoaded m \<Rightarrow>
                    if dd = DataLoading then LoadingView
                    else
                      (case m of
                         Some doc \<Rightarrow> CollabView (page_props cfg sgl item) doc
                       | None \<Rightarrow>
                           LocalView (page_props cfg sgl item)
                             (case dd of DataLoaded x \<Rightarrow> Some x | _ \<Rightarrow> None)))))"

text \<open>
  Opening a singleton in local mode, with the entry loaded and the draft store read: the
  view of the wrapper, and for the local page its state after mounting, the notice shown
  and the draft store after the autosave effect.
\<close>

definition open_local ::
  "('f, 'fmt) deps \<Rightarrow> 'f config \<Rightarrow> string \<Rightarrow> string \<Rightarrow> item_data \<Rightarrow> int \<Rightarrow> draft_store
    \<Rightarrow> (string + local_state \<times> toast option \<times> draft_store)" where
  "open_local d cfg sgl branch item now store =
     (case singletons cfg sgl of
        None \<Rightarrow> Inl ''not found''
      | Some sc \<Rightarrow>
          (case (SingletonPageWrapper cfg sgl branch (draftData (load_draft d cfg sc sgl store))
                   (DataLoaded item) (DataLoaded None) :: ('f, unit) view) of
             LocalView props dr \<Rightarrow> Inr (mount_local d sc props dr now store)
           | ErrorView e \<Rightarrow> Inl e
           | _ \<Rightarrow> Inl ''not a local page''))"

section \<open>A small instance\<close>

text \<open>
  Concrete collaborators to run the model on.  A field schema is given by its default
  value; an entry is stored as one file per field, holding the bytes of the field's value;
  an entry has changed when it is not the committed one.
\<close>

definition example_deps :: "(jsval, unit) deps" where
  "example_deps =
     \<lparr>getInitialPropsValue = (\<lambda>f. f),
      getInitialPropsValue_object = (\<lambda>sch. sch),
      useHasChanged = (\<lambda>init s sch. init \<noteq> Some s),
      getSingletonPath = (\<lambda>cfg sgl. sgl),
      getSingletonFormat = (\<lambda>cfg sgl. ()),
      serializeEntryToFiles =
        (\<lambda>base cfg fmt sch s. map (\<lambda>(k, v). (k, (case v of JBytes b \<Rightarrow> b | _ \<Rightarrow> []))) s),
      parseEntry = (\<lambda>cfg dir fmt sch files. Inr (map (\<lambda>(p, b). (p, JBytes b)) files))\<rparr>"

definition example_singleton_config :: "jsval singleton_config" where
  "example_singleton_config = \<lparr>label = ''Settings'', schema = [(''theme'', JBytes [0])]\<rparr>"

definition example_config :: "jsval config" where
  "example_config = \<lparr>singletons = [''settings'' \<mapsto> example_singleton_config]\<rparr>"

definition example_item :: item_data where
  "example_item =
     Found \<lparr>li_initialState = [(''theme'', JBytes [7])], li_initialFiles = [''theme''],
            li_localTreeKey = Some ''tree-2''\<rparr>"

definition example_draft :: jsval where
  "example_draft = draft_data (Some ''tree-1'') [(''theme'', [1, 2])] 100"

definition example_settings :: item_data where
  "example_settings =
     Found \<lparr>li_initialState = [(''theme'', JStr ''dark'')], li_initialFiles = [''theme''],
            li_localTreeKey = Some ''tree-1''\<rparr>"

definition example_toY :: "jsval \<Rightarrow> jsval \<Rightarrow> jsval" where
  "example_toY field v = v"

definition example_serialize :: "entry_state \<Rightarrow> (string \<times> bytes) list" where
  "example_serialize =
     serializeEntryToFiles example_deps ''settings'' example_config ()
       (schema example_singleton_config)"

definition example_submit_props :: inner_props where
  "example_submit_props =
     \<lparr>ip_singleton = ''settings'', ip_updateResult = Idle,
      ip_hasChanged = True, ip_state = [(''theme'', JBytes [1])], ip_baseCommit = ''def456'',
      ip_schemaValid = True, ip_isGitHub = True\<rparr>"

definition example_retry_props :: inner_props where
  "example_retry_props =
     \<lparr>ip_singleton = ''settings'', ip_updateResult = NeedsNewBranch ''stale'' ''abc123'',
      ip_hasChanged = True, ip_state = [(''theme'', JBytes [2])], ip_baseCommit = ''def456'',
      ip_schemaValid = True, ip_isGitHub = True\<rparr>"

definition example_inner_props :: inner_props where
  "example_inner_props =
     \<lparr>ip_singleton = ''settings'', ip_updateResult = NeedsNewBranch ''stale'' ''abc123'',
      ip_hasChanged = True, ip_state = [(''title'', JStr ''B'')], ip_baseCommit = ''def456'',
      ip_schemaValid = True, ip_isGitHub = True\<rparr>"

section \<open>Validation of stored drafts\<close>

lemma those_z_map_entry:
  "those (map z_map_entry (map (\<lambda>(p, c). (JStr p, JBytes c)) fs)) = Some fs"
  by (induction fs) auto

lemma those_z_map_entry_comp:
  "those (map (z_map_entry \<circ> (\<lambda>(p, c). (JStr p, JBytes c))) fs) = Some fs"
  using those_z_map_entry [of fs] by simp

lemma storedValSchema_parse_draft_data:
  "storedValSchema_parse (draft_data tk fs now) =
     Some \<lparr>sv_version = 1, sv_savedAt = now, sv_beforeTreeKey = tk, sv_files = fs\<rparr>"
  by (cases tk) (simp_all add: draft_data_def js_index_def those_z_map_entry_comp)

lemma storedValSchema_parse_not_falsy:
  "storedValSchema_parse raw = Some x \<Longrightarrow> \<not> falsy raw"
  by (cases raw) simp_all

lemma z_literal_1_None: "v \<noteq> JNum 1 \<Longrightarrow> z_literal_1 v = None"
  by (cases v) auto

lemma storedValSchema_parse_version:
  "js_index ps ''version'' \<noteq> JNum 1 \<Longrightarrow> storedValSchema_parse (JObj ps) = None"
  by (simp add: z_literal_1_None)

lemma load_draft_invalid:
  "getDraft (draft_key sgl) store = Some raw \<Longrightarrow> storedValSchema_parse raw = None
    \<Longrightarrow> \<exists>e. load_draft d cfg sc sgl store = Inl e"
  by (simp add: load_draft_def)

lemma load_draft_none:
  "getDraft (draft_key sgl) store = None \<Longrightarrow> load_draft d cfg sc sgl store = Inl ''No draft found''"
  by (simp add: load_draft_def)

lemma load_draft_valid:
  "getDraft (draft_key sgl) store = Some raw \<Longrightarrow> storedValSchema_parse raw = Some stored
    \<Longrightarrow> parseEntry d cfg (getSingletonPath d cfg sgl) (getSingletonFormat d cfg sgl)
          (schema sc) (sv_files stored) = Inr decoded
    \<Longrightarrow> load_draft d cfg sc sgl store =
          Inr \<lparr>draft_state = decoded, draft_savedAt = sv_savedAt stored,
               draft_treeKey = sv_beforeTreeKey stored\<rparr>"
  by (simp add: load_draft_def storedValSchema_parse_not_falsy)

lemma open_local_eq:
  "singletons cfg sgl = Some sc \<Longrightarrow>
   open_local d cfg sgl branch item now store =
     Inr (mount_local d sc (page_props cfg sgl item)
            (case load_draft d cfg sc sgl store of Inl e \<Rightarrow> None | Inr x \<Rightarrow> Some x) now store)"
  by (simp add: open_local_def SingletonPageWrapper_def draftData_def split: sum.splits)

lemma mount_local_eq:
  "mount_local d sc props dr now store =
     (initial_local_state d sc props dr,
      (case dr of None \<Rightarrow> None
       | Some x \<Rightarrow> Some (ShowDraftRestoredToast (draft_savedAt x) (localTreeKey props \<noteq> draft_treeKey x))),
      autosave_effect d sc props (st_state (initial_local_state d sc props dr)) now store)"
  by (simp add: mount_local_def render_local_state_def initial_local_state_def
      draft_restored_effect_def Let_def split: option.splits)

lemma getDraft_autosave_effect:
  "getDraft (draft_key (singleton props)) (autosave_effect d sc props s now store) =
     (if hasChanged d sc props s
      then Some (draft_data (localTreeKey props) (serialized_files d sc props s) now)
      else None)"
  by (simp add: autosave_effect_def getDraft_def setDraft_def delDraft_def Let_def)


section \<open>Opening a singleton in local mode\<close>

lemma committed_or_default_page_props:
  "committed_or_default d sc (page_props cfg sgl item) =
     (case item of NotFound \<Rightarrow> getInitialPropsValue_object d (schema sc)
      | Found l \<Rightarrow> li_initialState l)"
  by (cases item) (simp_all add: committed_or_default_def page_props_def)

lemma localTreeKey_page_props:
  "localTreeKey (page_props cfg sgl item) =
     (case item of NotFound \<Rightarrow> None | Found l \<Rightarrow> li_localTreeKey l)"
  by (cases item) (simp_all add: page_props_def)

lemma singleton_page_props: "singleton (page_props cfg sgl item) = sgl"
  by (simp add: page_props_def)

lemma open_local_no_draft:
  assumes "singletons cfg sgl = Some sc"
    and "load_draft d cfg sc sgl store = Inl e"
  shows "open_local d cfg sgl branch item now store =
     Inr (\<lparr>st_localTreeKey = (case item of NotFound \<Rightarrow> None | Found l \<Rightarrow> li_localTreeKey l),
           st_state = (case item of NotFound \<Rightarrow> getInitialPropsValue_object d (schema sc)
                       | Found l \<Rightarrow> li_initialState l)\<rparr>,
          None,
          autosave_effect d sc (page_props cfg sgl item)
            (case item of NotFound \<Rightarrow> getInitialPropsValue_object d (schema sc)
             | Found l \<Rightarrow> li_initialState l) now store)"
proof -
  have "open_local d cfg sgl branch item now store =
      Inr (mount_local d sc (page_props cfg sgl item) None now store)"
    by (simp add: open_local_eq [OF assms(1)] assms(2))
  then show ?thesis
    by (simp add: mount_local_eq initial_local_state_def committed_or_default_page_props
        localTreeKey_page_props)
qed

lemma autosave_effect_replaces_invalid:
  assumes "storedValSchema_parse raw = None"
  shows "getDraft (draft_key (singleton props)) (autosave_effect d sc props s now store) \<noteq> Some raw"
proof (cases "hasChanged d sc props s")
  case True
  then have "getDraft (draft_key (singleton props)) (autosave_effect d sc props s now store) =
      Some (draft_data (localTreeKey props) (serialized_files d sc props s) now)"
    by (simp add: getDraft_autosave_effect)
  moreover have "draft_data (localTreeKey props) (serialized_files d sc props s) now \<noteq> raw"
  proof
    assume "draft_data (localTreeKey props) (serialized_files d sc props s) now = raw"
    then have "storedValSchema_parse raw =
        storedValSchema_parse (draft_data (localTreeKey props) (serialized_files d sc props s) now)"
      by (rule arg_cong [OF sym])
    with assms show False by (simp add: storedValSchema_parse_draft_data)
  qed
  ultimately show ?thesis by simp
next
  case False
  then show ?thesis by (simp add: getDraft_autosave_effect)
qed

lemma invalid_draft:
  assumes "storedValSchema_parse raw = None \<or> (\<exists>ps. raw = JObj ps \<and> js_index ps ''version'' \<noteq> JNum 1)"
  shows "storedValSchema_parse raw = None"
  using assms
proof
  assume "storedValSchema_parse raw = None"
  then show ?thesis .
next
  assume "\<exists>ps. raw = JObj ps \<and> js_index ps ''version'' \<noteq> JNum 1"
  then obtain ps where r: "raw = JObj ps" and v: "js_index ps ''version'' \<noteq> JNum 1"
    by (elim exE conjE)
  from v have "storedValSchema_parse (JObj ps) = None"
    by (rule storedValSchema_parse_version)
  with r show ?thesis by (simp only:)
qed


lemma render_changed: "st_localTreeKey st \<noteq> localTreeKey props \<Longrightarrow>
      render_local_state d sc props st =
        \<lparr>st_localTreeKey = localTreeKey props, st_state = committed_or_default d sc props\<rparr>"
  by (simp add: render_local_state_def)

lemma render_same: "st_localTreeKey st = localTreeKey props \<Longrightarrow> render_local_state d sc props st = st"
  by (simp add: render_local_state_def)

lemma render_idem: "render_local_state d sc props (render_local_state d sc props st) =
       render_local_state d sc props st"
  by (cases "st_localTreeKey st = localTreeKey props") (simp_all add: render_changed render_same)




subsection \<open>The instance\<close>

lemma example_singletons:
  "singletons example_config ''settings'' = Some example_singleton_config"
  by (simp add: example_config_def)

lemma example_draft_parse:
  "storedValSchema_parse example_draft =
     Some \<lparr>sv_version = 1, sv_savedAt = 100, sv_beforeTreeKey = Some ''tree-1'',
           sv_files = [(''theme'', [1, 2])]\<rparr>"
  unfolding example_draft_def by (rule storedValSchema_parse_draft_data)

section \<open>The claims on the local page\<close>

text \<open>
  C1.  A singleton opened in local mode whose draft is in the store, validates and decodes:
  the state of the page is the decoded draft, and the draft-restored notice is shown; its
  flag is set exactly when the tree key of the page differs from the \<open>beforeTreeKey\<close> of
  the draft.
\<close>

theorem draft_restored_on_open:
  assumes "singletons cfg sgl = Some sc"
    and "getDraft (draft_key sgl) store = Some raw"
    and "storedValSchema_parse raw = Some stored"
    and "parseEntry d cfg (getSingletonPath d cfg sgl) (getSingletonFormat d cfg sgl)
           (schema sc) (sv_files stored) = Inr decoded"
  shows "\<exists>store'. open_local d cfg sgl branch item now store =
           Inr (\<lparr>st_localTreeKey = localTreeKey (page_props cfg sgl item), st_state = decoded\<rparr>,
                Some (ShowDraftRestoredToast (sv_savedAt stored)
                        (localTreeKey (page_props cfg sgl item) \<noteq> sv_beforeTreeKey stored)),
                store')"
proof -
  have "load_draft d cfg sc sgl store =
      Inr \<lparr>draft_state = decoded, draft_savedAt = sv_savedAt stored,
           draft_treeKey = sv_beforeTreeKey stored\<rparr>"
    using assms(2-4) by (rule load_draft_valid)
  with assms(1) show ?thesis
    by (simp add: open_local_eq mount_local_eq initial_local_state_def)
qed

theorem draft_restored_on_open_witness:
  "\<exists>store'. open_local example_deps example_config ''settings'' ''main'' example_item 200
              [draft_key ''settings'' \<mapsto> example_draft] =
     Inr (\<lparr>st_localTreeKey = Some ''tree-2'', st_state = [(''theme'', JBytes [1, 2])]\<rparr>,
          Some (ShowDraftRestoredToast 100 True), store')"
proof -
  have h2: "getDraft (draft_key ''settings'') [draft_key ''settings'' \<mapsto> example_draft]
              = Some example_draft"
    by (simp add: getDraft_def)
  have h4: "parseEntry example_deps example_config
              (getSingletonPath example_deps example_config ''settings'')
              (getSingletonFormat example_deps example_config ''settings'')
              (schema example_singleton_config)
              (sv_files \<lparr>sv_version = 1, sv_savedAt = 100, sv_beforeTreeKey = Some ''tree-1'',
                         sv_files = [(''theme'', [1, 2])]\<rparr>)
            = Inr [(''theme'', JBytes [1, 2])]"
    by (simp add: example_deps_def)
  from draft_restored_on_open [OF example_singletons h2 example_draft_parse h4,
      of "''main''" example_item 200]
  show ?thesis by (simp add: page_props_def example_item_def)
qed

text \<open>
  C2.  A singleton opened in local mode with no draft in the store: the state of the page
  is the committed state, and the default value of the schema when the entry does not
  exist; no notice is shown.
\<close>

theorem no_draft_initial_state:
  assumes "singletons cfg sgl = Some sc"
    and "getDraft (draft_key sgl) store = None"
  shows "\<exists>store'. open_local d cfg sgl branch item now store =
           Inr (\<lparr>st_localTreeKey = (case item of NotFound \<Rightarrow> None | Found l \<Rightarrow> li_localTreeKey l),
                 st_state = (case item of
                               NotFound \<Rightarrow> getInitialPropsValue_object d (schema sc)
                             | Found l \<Rightarrow> li_initialState l)\<rparr>,
                None, store')"
proof -
  have "load_draft d cfg sc sgl store = Inl ''No draft found''"
    using assms(2) by (rule load_draft_none)
  with assms(1) have "open_local d cfg sgl branch item now store =
     Inr (\<lparr>st_localTreeKey = (case item of NotFound \<Rightarrow> None | Found l \<Rightarrow> li_localTreeKey l),
           st_state = (case item of NotFound \<Rightarrow> getInitialPropsValue_object d (schema sc)
                       | Found l \<Rightarrow> li_initialState l)\<rparr>,
          None,
          autosave_effect d sc (page_props cfg sgl item)
            (case item of NotFound \<Rightarrow> getInitialPropsValue_object d (schema sc)
             | Found l \<Rightarrow> li_initialState l) now store)"
    by (rule open_local_no_draft)
  then show ?thesis by simp
qed

theorem no_draft_initial_state_witness:
  "\<exists>store'. open_local example_deps example_config ''settings'' ''main'' NotFound 200 Map.empty =
     Inr (\<lparr>st_localTreeKey = None, st_state = [(''theme'', JBytes [0])]\<rparr>, None, store')"
proof -
  have h2: "getDraft (draft_key ''settings'') Map.empty = None"
    by (simp add: getDraft_def)
  from no_draft_initial_state [OF example_singletons h2, of example_deps "''main''" NotFound 200]
  show ?thesis by (simp add: example_deps_def example_singleton_config_def)
qed



text \<open>
  C5.  When the tree key of the props is not the one kept in the state, rendering replaces
  the state by the committed state, or by the default value of the schema when the entry
  does not exist, and records the new tree key; the source does so whether or not there
  are unsaved edits, in particular when there are none.  Rendering again changes nothing.
\<close>

theorem tree_key_change_resets_state:
  "(st_localTreeKey st \<noteq> localTreeKey props \<longrightarrow>
      render_local_state d sc props st =
        \<lparr>st_localTreeKey = localTreeKey props,
         st_state = (case initialState props of
                       None \<Rightarrow> getInitialPropsValue_object d (schema sc)
                     | Some s \<Rightarrow> s)\<rparr>)
   \<and> render_local_state d sc props (render_local_state d sc props st) =
       render_local_state d sc props st"
proof -
  have "st_localTreeKey st \<noteq> localTreeKey props \<longrightarrow>
      render_local_state d sc props st =
        \<lparr>st_localTreeKey = localTreeKey props,
         st_state = (case initialState props of
                       None \<Rightarrow> getInitialPropsValue_object d (schema sc)
                     | Some s \<Rightarrow> s)\<rparr>"
    using render_changed [of st props d sc] unfolding committed_or_default_def by (rule impI)
  then show ?thesis using render_idem [of d sc props st] by (rule conjI)
qed

theorem tree_key_change_resets_state_witness:
  "render_local_state example_deps example_singleton_config
     (page_props example_config ''settings'' example_item)
     \<lparr>st_localTreeKey = Some ''tree-1'', st_state = [(''theme'', JBytes [9])]\<rparr>
   = \<lparr>st_localTreeKey = Some ''tree-2'', st_state = [(''theme'', JBytes [7])]\<rparr>"
  using tree_key_change_resets_state [of
      "\<lparr>st_localTreeKey = Some ''tree-1'', st_state = [(''theme'', JBytes [9])]\<rparr>"
      "page_props example_config ''settings'' example_item"
      example_deps example_singleton_config]
  by (simp add: page_props_def example_item_def)

text \<open>
  C8.  A stored draft that fails the validation, in particular an object whose \<open>version\<close>
  is not the number 1, is not used: the page opens with the committed state (the default
  value when the entry does not exist) and without notice, no error view is rendered, and
  after the autosave effect of the mounted page the store no longer holds that draft.
\<close>

theorem invalid_draft_falls_back:
  assumes "singletons cfg sgl = Some sc"
    and "getDraft (draft_key sgl) store = Some raw"
    and "storedValSchema_parse raw = None \<or> (\<exists>ps. raw = JObj ps \<and> js_index ps ''version'' \<noteq> JNum 1)"
  shows "\<exists>store'. open_local d cfg sgl branch item now store =
           Inr (\<lparr>st_localTreeKey = (case item of NotFound \<Rightarrow> None | Found l \<Rightarrow> li_localTreeKey l),
                 st_state = (case item of
                               NotFound \<Rightarrow> getInitialPropsValue_object d (schema sc)
                             | Found l \<Rightarrow> li_initialState l)\<rparr>,
                None, store')
           \<and> getDraft (draft_key sgl) store' \<noteq> Some raw"
proof -
  from assms(3) have inv: "storedValSchema_parse raw = None"
    by (rule invalid_draft)
  obtain e where nodraft: "load_draft d cfg sc sgl store = Inl e"
    using load_draft_invalid [OF assms(2) inv, of d cfg sc] by (elim exE)
  let ?s = "case item of NotFound \<Rightarrow> getInitialPropsValue_object d (schema sc)
            | Found l \<Rightarrow> li_initialState l"
  let ?store' = "autosave_effect d sc (page_props cfg sgl item) ?s now store"
  have "getDraft (draft_key (singleton (page_props cfg sgl item))) ?store' \<noteq> Some raw"
    using inv by (rule autosave_effect_replaces_invalid)
  then have "getDraft (draft_key sgl) ?store' \<noteq> Some raw"
    unfolding singleton_page_props .
  with open_local_no_draft [OF assms(1) nodraft, of branch item now] show ?thesis
    by (intro exI [where x = ?store'] conjI)
qed

theorem invalid_draft_falls_back_witness:
  "\<exists>store'. open_local example_deps example_config ''settings'' ''main'' example_item 200
              [draft_key ''settings'' \<mapsto> JObj [(''version'', JNum 2)]] =
     Inr (\<lparr>st_localTreeKey = Some ''tree-2'', st_state = [(''theme'', JBytes [7])]\<rparr>, None, store')
     \<and> getDraft (draft_key ''settings'') store' \<noteq> Some (JObj [(''version'', JNum 2)])"
proof -
  have h2: "getDraft (draft_key ''settings'') [draft_key ''settings'' \<mapsto> JObj [(''version'', JNum 2)]]
              = Some (JObj [(''version'', JNum 2)])"
    by (simp add: getDraft_def)
  have h3: "storedValSchema_parse (JObj [(''version'', JNum 2)]) = None
        \<or> (\<exists>ps. JObj [(''version'', JNum 2)] = JObj ps \<and> js_index ps ''version'' \<noteq> JNum 1)"
    by (simp add: js_index_def)
  from invalid_draft_falls_back [OF example_singletons h2 h3, of example_deps "''main''" example_item 200]
  show ?thesis by (simp add: example_item_def)
qed

text \<open>
  C10.  The key of a singleton's draft is \<open>['singleton', name]\<close>; neither the branch nor the
  tree key is part of it.  A draft saved by the autosave effect of a page with one tree key
  is found when the singleton is opened on any branch with any tree key: the page opens
  with the decoded draft, and the notice's flag tells whether the two tree keys differ.
\<close>

theorem draft_found_across_branches:
  assumes "singletons cfg sgl = Some sc"
    and "hasChanged d sc (page_props cfg sgl item1) s"
    and "parseEntry d cfg (getSingletonPath d cfg sgl) (getSingletonFormat d cfg sgl) (schema sc)
           (serialized_files d sc (page_props cfg sgl item1) s) = Inr decoded"
  shows "draft_key sgl = [''singleton'', sgl]
    \<and> (\<exists>store'.
         open_local d cfg sgl branch2 item2 now2
           (autosave_effect d sc (page_props cfg sgl item1) s now1 store) =
         Inr (\<lparr>st_localTreeKey = localTreeKey (page_props cfg sgl item2), st_state = decoded\<rparr>,
              Some (ShowDraftRestoredToast now1
                      (localTreeKey (page_props cfg sgl item2)
                         \<noteq> localTreeKey (page_props cfg sgl item1))),
              store'))"
proof -
  let ?p1 = "page_props cfg sgl item1"
  let ?raw = "draft_data (localTreeKey ?p1) (serialized_files d sc ?p1 s) now1"
  let ?store = "autosave_effect d sc ?p1 s now1 store"
  have sgl: "singleton ?p1 = sgl" by (simp add: page_props_def)
  have g: "getDraft (draft_key sgl) ?store = Some ?raw"
    using getDraft_autosave_effect [of ?p1 d sc s now1 store] assms(2) by (simp add: sgl)
  have ld: "load_draft d cfg sc sgl ?store =
      Inr \<lparr>draft_state = decoded, draft_savedAt = now1, draft_treeKey = localTreeKey ?p1\<rparr>"
    using load_draft_valid [OF g storedValSchema_parse_draft_data, of d cfg sc decoded] assms(3)
    by simp
  show ?thesis
    using assms(1) ld
    by (simp add: draft_key_def open_local_eq mount_local_eq initial_local_state_def)
qed

theorem draft_found_across_branches_witness:
  "\<exists>store'. open_local example_deps example_config ''settings'' ''feature'' example_item 400
       (autosave_effect example_deps example_singleton_config
          (page_props example_config ''settings''
             (Found \<lparr>li_initialState = [(''theme'', JBytes [7])], li_initialFiles = [''theme''],
                     li_localTreeKey = Some ''tree-1''\<rparr>))
          [(''theme'', JBytes [9])] 300 Map.empty) =
     Inr (\<lparr>st_localTreeKey = Some ''tree-2'', st_state = [(''theme'', JBytes [9])]\<rparr>,
          Some (ShowDraftRestoredToast 300 True), store')"
proof -
  let ?item1 = "Found \<lparr>li_initialState = [(''theme'', JBytes [7])], li_initialFiles = [''theme''],
                     li_localTreeKey = Some ''tree-1''\<rparr>"
  have c1: "hasChanged example_deps example_singleton_config
      (page_props example_config ''settings'' ?item1) [(''theme'', JBytes [9])]"
    by (simp add: hasChanged_def example_deps_def page_props_def)
  have f: "serialized_files example_deps example_singleton_config
      (page_props example_config ''settings'' ?item1) [(''theme'', JBytes [9])]
      = [(''theme'', [9])]"
    by (simp add: serialized_files_def example_deps_def new_Map_def)
  have h3: "parseEntry example_deps example_config
      (getSingletonPath example_deps example_config ''settings'')
      (getSingletonFormat example_deps example_config ''settings'')
      (schema example_singleton_config)
      (serialized_files example_deps example_singleton_config
         (page_props example_config ''settings'' ?item1) [(''theme'', JBytes [9])])
      = Inr [(''theme'', JBytes [9])]"
    unfolding f by (simp add: example_deps_def)
  from draft_found_across_branches [OF example_singletons c1 h3, of "''feature''" example_item 400 300 Map.empty]
  show ?thesis by (simp add: page_props_def example_item_def)
qed

section \<open>The claims on submitting\<close>

lemma handle_event_loading:
  assumes "ip_updateResult p = Loading"
  shows "handle_event enc p ev = (if ev = MenuReset \<and> ip_hasChanged p then [OnReset] else [])"
  using assms
  by (cases ev)
     (simp_all add: onCreate_def rendered_branch_dialog_def fork_dialog_rendered_def)

lemma apply_action_loading:
  "co_result c = Loading \<Longrightarrow> apply_action ser s c a = c"
  by (cases a) (simp_all add: update_def resetUpdateItem_def)

lemma foldl_apply_action_loading:
  "co_result c = Loading \<Longrightarrow> foldl (apply_action ser s) c as = c"
  by (induction as) (simp_all add: apply_action_loading)

lemma classify_not_loading: "classify r \<noteq> Loading"
  by (cases r) simp_all

lemma update_ok: "coordinator_ok c \<Longrightarrow> coordinator_ok (update ser ov s c)"
  by (auto simp add: coordinator_ok_def update_def Let_def)

lemma resetUpdateItem_ok: "coordinator_ok c \<Longrightarrow> coordinator_ok (resetUpdateItem c)"
  by (auto simp add: coordinator_ok_def resetUpdateItem_def)

lemma store_answers_ok: "coordinator_ok c \<Longrightarrow> coordinator_ok (store_answers r c)"
  by (auto simp add: coordinator_ok_def store_answers_def classify_not_loading)

lemma apply_action_ok: "coordinator_ok c \<Longrightarrow> coordinator_ok (apply_action ser s c a)"
  by (cases a) (simp_all add: update_ok resetUpdateItem_ok)

lemma foldl_apply_action_ok:
  "coordinator_ok c \<Longrightarrow> coordinator_ok (foldl (apply_action ser s) c as)"
  by (induction as arbitrary: c) (simp_all add: apply_action_ok)

lemma sys_step_ok: "coordinator_ok c \<Longrightarrow> coordinator_ok (sys_step enc ser c e)"
  by (cases e) (simp_all add: foldl_apply_action_ok store_answers_ok)

lemma foldl_sys_step_ok:
  "coordinator_ok c \<Longrightarrow> coordinator_ok (foldl (sys_step enc ser) c evs)"
  by (induction evs arbitrary: c) (simp_all add: sys_step_ok)

lemma initial_coordinator_ok: "coordinator_ok initial_coordinator"
  by (simp add: coordinator_ok_def initial_coordinator_def)

lemma sys_run_ok: "coordinator_ok (sys_run enc ser evs)"
  unfolding sys_run_def using initial_coordinator_ok by (rule foldl_sys_step_ok)

lemma coordinator_ok_in_flight: "coordinator_ok c \<Longrightarrow> in_flight c \<le> 1"
  by (auto simp add: coordinator_ok_def in_flight_def)

lemma submit_sends:
  assumes "co_result c \<noteq> Loading" and "\<not> is_dialog_state (co_result c)"
    and "ip_updateResult p = co_result c" and "ip_hasChanged p" and "ip_schemaValid p"
  shows "sys_step enc ser c (PageEvent p FormSubmit) =
     c\<lparr>co_result := Loading,
       co_sent := co_sent c @ [\<lparr>cr_override = None, cr_files = ser (ip_state p)\<rparr>],
       co_serialized := Some (ser (ip_state p))\<rparr>"
  using assms
  by (simp add: onCreate_def update_def Let_def split: option.splits)

lemma diverged_answer:
  assumes "co_answered c < length (co_sent c)"
  shows "store_answers (BranchDiverged reason oid) c =
     c\<lparr>co_result := NeedsNewBranch reason oid, co_answered := co_answered c + 1\<rparr>"
  using assms by (simp add: store_answers_def)

lemma branch_dialog_event:
  assumes "ip_updateResult p = NeedsNewBranch reason oid"
  shows "handle_event enc p (BranchDialogCreate newBranch) =
        [RouterPush (''/keystatic/branch/'' @ enc newBranch @ ''/singleton/'' @ enc (ip_singleton p)),
         OnUpdate (Some (newBranch, ip_baseCommit p))]"
  using assms by (simp add: rendered_branch_dialog_def branch_dialog_onCreate_def)

lemma retry_sends:
  assumes "co_result c = NeedsNewBranch reason oid" and "co_serialized c = Some fs"
    and "ip_updateResult p = co_result c"
  shows "sys_step enc ser c (PageEvent p (BranchDialogCreate newBranch)) =
     c\<lparr>co_result := Loading,
       co_sent := co_sent c @ [\<lparr>cr_override = Some (newBranch, ip_baseCommit p), cr_files = fs\<rparr>],
       co_serialized := Some fs\<rparr>"
proof -
  from assms(1,3) have "ip_updateResult p = NeedsNewBranch reason oid" by simp
  then have "handle_event enc p (BranchDialogCreate newBranch) =
        [RouterPush (''/keystatic/branch/'' @ enc newBranch @ ''/singleton/'' @ enc (ip_singleton p)),
         OnUpdate (Some (newBranch, ip_baseCommit p))]"
    by (rule branch_dialog_event)
  then have "sys_step enc ser c (PageEvent p (BranchDialogCreate newBranch)) =
      update ser (Some (newBranch, ip_baseCommit p)) (ip_state p) c"
    by (simp del: handle_event.simps)
  also have "\<dots> = c\<lparr>co_result := Loading,
       co_sent := co_sent c @ [\<lparr>cr_override = Some (newBranch, ip_baseCommit p), cr_files = fs\<rparr>],
       co_serialized := Some fs\<rparr>"
    using assms(1,2) by (simp add: update_def Let_def)
  finally show ?thesis .
qed

text \<open>
  C4.  While the update result is \<open>loading\<close>, a new submit or update request is a no-op.
  In a render whose update result is loading, submitting the form does nothing and no
  event of the page calls \<open>onUpdate\<close>.  While the coordinator is loading, \<open>update\<close> changes
  nothing, and neither does any event of the page, whatever render handles it, so no
  further commit request is sent.  After any sequence of page events and store answers,
  at most one submit is in flight, and one is exactly while the result is loading.
\<close>

theorem no_update_while_loading:
  "(ip_updateResult p = Loading \<longrightarrow>
      onCreate p = []
      \<and> (\<forall>ev. handle_event enc p ev = (if ev = MenuReset \<and> ip_hasChanged p then [OnReset] else [])))
   \<and> (co_result c = Loading \<longrightarrow>
      update ser ov s c = c
      \<and> (\<forall>q ev. sys_step enc ser c (PageEvent q ev) = c))
   \<and> in_flight (sys_run enc ser evs) \<le> 1
   \<and> (co_result (sys_run enc ser evs) = Loading) = (in_flight (sys_run enc ser evs) = 1)"
proof -
  have a: "ip_updateResult p = Loading \<longrightarrow>
      onCreate p = []
      \<and> (\<forall>ev. handle_event enc p ev = (if ev = MenuReset \<and> ip_hasChanged p then [OnReset] else []))"
  proof
    assume l: "ip_updateResult p = Loading"
    then have "onCreate p = []" by (simp add: onCreate_def)
    moreover have "\<forall>ev. handle_event enc p ev = (if ev = MenuReset \<and> ip_hasChanged p then [OnReset] else [])"
      using handle_event_loading [OF l] by (rule allI)
    ultimately show "onCreate p = []
      \<and> (\<forall>ev. handle_event enc p ev = (if ev = MenuReset \<and> ip_hasChanged p then [OnReset] else []))"
      by (rule conjI)
  qed
  have b: "co_result c = Loading \<longrightarrow>
      update ser ov s c = c \<and> (\<forall>q ev. sys_step enc ser c (PageEvent q ev) = c)"
  proof
    assume l: "co_result c = Loading"
    then have "update ser ov s c = c" by (simp add: update_def)
    moreover have "\<forall>q ev. sys_step enc ser c (PageEvent q ev) = c"
      using l by (simp add: foldl_apply_action_loading)
    ultimately show "update ser ov s c = c \<and> (\<forall>q ev. sys_step enc ser c (PageEvent q ev) = c)"
      by (rule conjI)
  qed
  have ok: "coordinator_ok (sys_run enc ser evs)" by (rule sys_run_ok)
  then have d: "in_flight (sys_run enc ser evs) \<le> 1" by (rule coordinator_ok_in_flight)
  from ok have e: "(co_result (sys_run enc ser evs) = Loading) = (in_flight (sys_run enc ser evs) = 1)"
    by (auto simp add: coordinator_ok_def in_flight_def)
  from a b d e show ?thesis by (intro conjI)
qed

theorem no_update_while_loading_witness:
  "co_sent (sys_run id example_serialize
      [PageEvent example_submit_props FormSubmit, PageEvent example_submit_props FormSubmit]) =
     [\<lparr>cr_override = None, cr_files = [(''theme'', [1])]\<rparr>]
   \<and> in_flight (sys_run id example_serialize
      [PageEvent example_submit_props FormSubmit, PageEvent example_submit_props FormSubmit]) \<le> 1"
proof -
  let ?evs = "[PageEvent example_submit_props FormSubmit, PageEvent example_submit_props FormSubmit]"
  let ?c1 = "sys_run id example_serialize [PageEvent example_submit_props FormSubmit]"
  have c1: "?c1 = \<lparr>co_result = Loading,
                   co_sent = [\<lparr>cr_override = None, cr_files = [(''theme'', [1])]\<rparr>],
                   co_answered = 0, co_serialized = Some [(''theme'', [1])]\<rparr>"
    by (simp add: sys_run_def initial_coordinator_def example_submit_props_def onCreate_def
        update_def Let_def example_serialize_def example_deps_def)
  then have l: "co_result ?c1 = Loading" by simp
  have "sys_run id example_serialize ?evs =
      sys_step id example_serialize ?c1 (PageEvent example_submit_props FormSubmit)"
    by (simp add: sys_run_def del: sys_step.simps)
  also from no_update_while_loading [where c = ?c1 and ser = example_serialize and enc = id] l
  have "\<dots> = ?c1" by (simp del: sys_step.simps)
  finally have r: "sys_run id example_serialize ?evs = ?c1" .
  from no_update_while_loading [where evs = ?evs and ser = example_serialize and enc = id]
  have "in_flight (sys_run id example_serialize ?evs) \<le> 1" by (simp del: sys_step.simps)
  with r c1 show ?thesis by simp
qed

text \<open>
  C6, as stated, fails: with an update result \<open>needs-new-branch\<close> that carries the commit
  \<open>abc123\<close> and a page whose base commit is \<open>def456\<close>, the dialog is offered for \<open>def456\<close>
  and the retry calls \<open>update\<close> with \<open>sha: def456\<close>; no call with \<open>abc123\<close> is made.
\<close>

theorem needs_new_branch_retry_counterexample:
  "ip_updateResult example_inner_props = NeedsNewBranch ''stale'' ''abc123''
   \<and> rendered_branch_dialog example_inner_props =
        Some \<lparr>bd_branchOid = ''def456'', bd_reason = ''stale''\<rparr>
   \<and> handle_event id example_inner_props (BranchDialogCreate ''feature-x'') =
        [RouterPush ''/keystatic/branch/feature-x/singleton/settings'',
         OnUpdate (Some (''feature-x'', ''def456''))]
   \<and> OnUpdate (Some (''feature-x'', ''abc123''))
        \<notin> set (handle_event id example_inner_props (BranchDialogCreate ''feature-x''))"
  by (simp add: example_inner_props_def rendered_branch_dialog_def branch_dialog_onCreate_def)

text \<open>
  C6, amended.  A submit from a current render, not in flight and not in a dialog state, sends
  the serialized state; when the store rejects it as branch divergence, the update result
  becomes \<open>needs-new-branch(reason, branchOid)\<close>; the recovery dialog is rendered with that
  reason and offers creating a new branch from the base commit of the page
  (\<open>useBaseCommit()\<close>), not from that \<open>branchOid\<close>; creating the branch routes to the singleton
  on it and calls \<open>update({ branch: newBranch, sha: baseCommit })\<close>, which sends a request
  with the same serialized files as the original submit, whatever the state of the page
  is by then.
\<close>

theorem needs_new_branch_retry:
  assumes "co_result c \<noteq> Loading" and "\<not> is_dialog_state (co_result c)"
    and "co_answered c = length (co_sent c)"
    and "ip_updateResult p = co_result c" and "ip_hasChanged p" and "ip_schemaValid p"
    and "c1 = sys_step enc ser c (PageEvent p FormSubmit)"
    and "c2 = sys_step enc ser c1 (StoreAnswer (BranchDiverged reason oid))"
    and "ip_updateResult p' = co_result c2"
    and "c3 = sys_step enc ser c2 (PageEvent p' (BranchDialogCreate newBranch))"
  shows "co_sent c1 = co_sent c @ [\<lparr>cr_override = None, cr_files = ser (ip_state p)\<rparr>]
    \<and> co_result c2 = NeedsNewBranch reason oid
    \<and> rendered_branch_dialog p' = Some \<lparr>bd_branchOid = ip_baseCommit p', bd_reason = reason\<rparr>
    \<and> handle_event enc p' (BranchDialogCreate newBranch) =
        [RouterPush (''/keystatic/branch/'' @ enc newBranch @ ''/singleton/'' @ enc (ip_singleton p')),
         OnUpdate (Some (newBranch, ip_baseCommit p'))]
    \<and> co_sent c3 = co_sent c1 @
        [\<lparr>cr_override = Some (newBranch, ip_baseCommit p'), cr_files = ser (ip_state p)\<rparr>]
    \<and> co_result c3 = Loading"
proof -
  have c1: "c1 = c\<lparr>co_result := Loading,
       co_sent := co_sent c @ [\<lparr>cr_override = None, cr_files = ser (ip_state p)\<rparr>],
       co_serialized := Some (ser (ip_state p))\<rparr>"
    unfolding assms(7) using assms(1,2,4,5,6) by (rule submit_sends)
  then have s1: "co_sent c1 = co_sent c @ [\<lparr>cr_override = None, cr_files = ser (ip_state p)\<rparr>]"
    and f1: "co_serialized c1 = Some (ser (ip_state p))"
    by simp_all
  from c1 assms(3) have "co_answered c1 < length (co_sent c1)" by simp
  then have "store_answers (BranchDiverged reason oid) c1 =
     c1\<lparr>co_result := NeedsNewBranch reason oid, co_answered := co_answered c1 + 1\<rparr>"
    by (rule diverged_answer)
  then have c2: "c2 = c1\<lparr>co_result := NeedsNewBranch reason oid, co_answered := co_answered c1 + 1\<rparr>"
    unfolding assms(8) by simp
  then have r2: "co_result c2 = NeedsNewBranch reason oid"
    and s2: "co_sent c2 = co_sent c1"
    and f2: "co_serialized c2 = Some (ser (ip_state p))"
    using f1 by simp_all
  from assms(9) r2 have u: "ip_updateResult p' = NeedsNewBranch reason oid" by simp
  then have d: "rendered_branch_dialog p' = Some \<lparr>bd_branchOid = ip_baseCommit p', bd_reason = reason\<rparr>"
    by (simp add: rendered_branch_dialog_def)
  from u have h: "handle_event enc p' (BranchDialogCreate newBranch) =
        [RouterPush (''/keystatic/branch/'' @ enc newBranch @ ''/singleton/'' @ enc (ip_singleton p')),
         OnUpdate (Some (newBranch, ip_baseCommit p'))]"
    by (rule branch_dialog_event)
  have c3: "c3 = c2\<lparr>co_result := Loading,
       co_sent := co_sent c2 @ [\<lparr>cr_override = Some (newBranch, ip_baseCommit p'),
                                 cr_files = ser (ip_state p)\<rparr>],
       co_serialized := Some (ser (ip_state p))\<rparr>"
    unfolding assms(10) using r2 f2 assms(9) by (rule retry_sends)
  then have s3: "co_sent c3 = co_sent c1 @
        [\<lparr>cr_override = Some (newBranch, ip_baseCommit p'), cr_files = ser (ip_state p)\<rparr>]"
    and r3: "co_result c3 = Loading"
    using s2 by simp_all
  from s1 r2 d h s3 r3 show ?thesis by (intro conjI)
qed

theorem needs_new_branch_retry_witness:
  "co_sent (sys_run id example_serialize
      [PageEvent example_submit_props FormSubmit,
       StoreAnswer (BranchDiverged ''stale'' ''abc123''),
       PageEvent example_retry_props (BranchDialogCreate ''feature-x'')]) =
     [\<lparr>cr_override = None, cr_files = [(''theme'', [1])]\<rparr>,
      \<lparr>cr_override = Some (''feature-x'', ''def456''), cr_files = [(''theme'', [1])]\<rparr>]"
proof -
  let ?c = initial_coordinator
  let ?c1 = "sys_step id example_serialize ?c (PageEvent example_submit_props FormSubmit)"
  let ?c2 = "sys_step id example_serialize ?c1 (StoreAnswer (BranchDiverged ''stale'' ''abc123''))"
  let ?c3 = "sys_step id example_serialize ?c2
               (PageEvent example_retry_props (BranchDialogCreate ''feature-x''))"
  have h1: "co_result ?c \<noteq> Loading" and h2: "\<not> is_dialog_state (co_result ?c)"
    and h3: "co_answered ?c = length (co_sent ?c)"
    by (simp_all add: initial_coordinator_def)
  have h4: "ip_updateResult example_submit_props = co_result ?c"
    and h5: "ip_hasChanged example_submit_props" and h6: "ip_schemaValid example_submit_props"
    by (simp_all add: initial_coordinator_def example_submit_props_def)
  have r2: "co_result ?c2 = NeedsNewBranch ''stale'' ''abc123''"
    by (simp add: initial_coordinator_def example_submit_props_def onCreate_def update_def
        Let_def store_answers_def)
  have h9: "ip_updateResult example_retry_props = co_result ?c2"
    unfolding r2 by (simp add: example_retry_props_def)
  from needs_new_branch_retry [OF h1 h2 h3 h4 h5 h6 refl refl h9 refl, of "''feature-x''"]
  have "co_sent ?c3 = co_sent ?c1 @
        [\<lparr>cr_override = Some (''feature-x'', ip_baseCommit example_retry_props),
          cr_files = example_serialize (ip_state example_submit_props)\<rparr>]"
    and "co_sent ?c1 = co_sent ?c @
        [\<lparr>cr_override = None, cr_files = example_serialize (ip_state example_submit_props)\<rparr>]"
    by (simp_all del: sys_step.simps)
  then have "co_sent ?c3 =
     [\<lparr>cr_override = None, cr_files = example_serialize (ip_state example_submit_props)\<rparr>,
      \<lparr>cr_override = Some (''feature-x'', ip_baseCommit example_retry_props),
        cr_files = example_serialize (ip_state example_submit_props)\<rparr>]"
    by (simp add: initial_coordinator_def del: sys_step.simps)
  moreover have "example_serialize (ip_state example_submit_props) = [(''theme'', [1])]"
    and "ip_baseCommit example_retry_props = ''def456''"
    by (simp_all add: example_serialize_def example_deps_def example_submit_props_def
        example_retry_props_def)
  ultimately show ?thesis
    by (simp add: sys_run_def del: sys_step.simps)
qed

section \<open>The claims on the collaborative document\<close>

lemma fold_y_apply_other:
  "k \<notin> fst ` set sch \<Longrightarrow>
   map_of (fold y_apply (map (\<lambda>(key, value). YSet key (h key value)) sch) m) k = map_of m k"
proof (induction sch arbitrary: m)
  case Nil
  then show ?case by simp
next
  case (Cons a sch)
  obtain k0 f0 where a: "a = (k0, f0)" by (cases a)
  from Cons.prems a have ne: "k0 \<noteq> k" and notin: "k \<notin> fst ` set sch" by auto
  have "map_of (fold y_apply (map (\<lambda>(key, value). YSet key (h key value)) sch)
            (AList.update k0 (h k0 f0) m)) k = map_of (AList.update k0 (h k0 f0) m) k"
    using notin by (rule Cons.IH)
  also have "\<dots> = map_of m k" using ne by (simp add: update_conv')
  finally show ?case by (simp add: a)
qed

lemma fold_y_apply_seeded:
  "distinct (map fst sch) \<Longrightarrow> (k, f) \<in> set sch \<Longrightarrow>
   map_of (fold y_apply (map (\<lambda>(key, value). YSet key (h key value)) sch) m) k = Some (h k f)"
proof (induction sch arbitrary: m)
  case Nil
  then show ?case by simp
next
  case (Cons a sch)
  obtain k0 f0 where a: "a = (k0, f0)" by (cases a)
  from Cons.prems(1) a have d: "distinct (map fst sch)" and k0: "k0 \<notin> fst ` set sch" by auto
  show ?case
  proof (cases "(k, f) = (k0, f0)")
    case True
    then have "map_of (fold y_apply (map (\<lambda>(key, value). YSet key (h key value)) sch)
              (AList.update k0 (h k0 f0) m)) k = map_of (AList.update k0 (h k0 f0) m) k"
      using k0 by (simp add: fold_y_apply_other)
    also have "\<dots> = Some (h k f)" using True by (simp add: update_conv')
    finally show ?thesis by (simp add: a)
  next
    case False
    with Cons.prems(2) a have "(k, f) \<in> set sch" by auto
    with d have "map_of (fold y_apply (map (\<lambda>(key, value). YSet key (h key value)) sch)
              (AList.update k0 (h k0 f0) m)) k = Some (h k f)"
      by (rule Cons.IH)
    then show ?thesis by (simp add: a)
  qed
qed

lemma fold_y_apply_keys:
  "fst ` set (fold y_apply (map (\<lambda>(key, value). YSet key (h key value)) sch) m) =
     fst ` set m \<union> fst ` set sch"
proof (induction sch arbitrary: m)
  case Nil
  then show ?case by simp
next
  case (Cons a sch)
  obtain k0 f0 where a: "a = (k0, f0)" by (cases a)
  have "fst ` set (fold y_apply (map (\<lambda>(key, value). YSet key (h key value)) sch)
            (AList.update k0 (h k0 f0) m)) =
        fst ` set (AList.update k0 (h k0 f0) m) \<union> fst ` set sch"
    by (rule Cons.IH)
  also have "\<dots> = fst ` set m \<union> fst ` set ((k0, f0) # sch)"
    by (simp add: dom_update Un_assoc insert_commute)
  finally show ?case by (simp add: a)
qed

lemma seed_writes_eq:
  "seed_writes d toY sch item =
     map (\<lambda>(key, value). YSet key (toY value (seed_value d item key value))) sch"
  by (simp add: seed_writes_def)

lemma seed_if_empty_nonempty: "ydata doc \<noteq> [] \<Longrightarrow> seed_if_empty d toY sch item doc = doc"
  by (simp add: seed_if_empty_def)

lemma seed_if_empty_empty:
  "ydata doc = [] \<Longrightarrow>
   seed_if_empty d toY sch item doc =
     \<lparr>ydata = fold y_apply (seed_writes d toY sch item) [],
      ytransactions = ytransactions doc @ [seed_writes d toY sch item]\<rparr>"
  by (simp add: seed_if_empty_def transact_def)

lemma open_collab_doc_seeded:
  assumes "distinct (map fst sch)"
    and "doc = (case registry key of Some x \<Rightarrow> x | None \<Rightarrow> y_new_doc)"
    and "open_collab_doc d toY sch item key registry = (registry', doc')"
  shows "(ydata doc = [] \<longrightarrow>
            ytransactions doc' = ytransactions doc @ [seed_writes d toY sch item]
          \<and> (\<forall>k f. (k, f) \<in> set sch \<longrightarrow>
                map_of (ydata doc') k = Some (toY f (seed_value d item k f)))
          \<and> fst ` set (ydata doc') = fst ` set sch)
    \<and> (ydata doc \<noteq> [] \<longrightarrow> doc' = doc)
    \<and> registry' key = Some doc'"
proof -
  have "open_collab_doc d toY sch item key registry =
      (registry(key \<mapsto> seed_if_empty d toY sch item doc), seed_if_empty d toY sch item doc)"
    unfolding open_collab_doc_def assms(2) by (simp add: Let_def)
  with assms(3) have
    "(registry', doc') =
      (registry(key \<mapsto> seed_if_empty d toY sch item doc), seed_if_empty d toY sch item doc)"
    by (rule subst)
  then have doc': "doc' = seed_if_empty d toY sch item doc"
    and reg: "registry' = registry(key \<mapsto> doc')"
    by auto
  have a: "ydata doc = [] \<longrightarrow>
            ytransactions doc' = ytransactions doc @ [seed_writes d toY sch item]
          \<and> (\<forall>k f. (k, f) \<in> set sch \<longrightarrow>
                map_of (ydata doc') k = Some (toY f (seed_value d item k f)))
          \<and> fst ` set (ydata doc') = fst ` set sch"
  proof
    assume e: "ydata doc = []"
    have d1: "ydata doc' = fold y_apply (seed_writes d toY sch item) []"
      and d2: "ytransactions doc' = ytransactions doc @ [seed_writes d toY sch item]"
      unfolding doc' seed_if_empty_empty [OF e] by simp_all
    have v: "\<forall>k f. (k, f) \<in> set sch \<longrightarrow>
                map_of (ydata doc') k = Some (toY f (seed_value d item k f))"
    proof (intro allI impI)
      fix k f assume "(k, f) \<in> set sch"
      with assms(1) show "map_of (ydata doc') k = Some (toY f (seed_value d item k f))"
        unfolding d1 seed_writes_eq
        by (rule fold_y_apply_seeded [where h = "\<lambda>key value. toY value (seed_value d item key value)"])
    qed
    have ks: "fst ` set (ydata doc') = fst ` set sch"
      unfolding d1 seed_writes_eq
      using fold_y_apply_keys [where h = "\<lambda>key value. toY value (seed_value d item key value)"
          and sch = sch and m = "[]"]
      by simp
    from d2 v ks show "ytransactions doc' = ytransactions doc @ [seed_writes d toY sch item]
          \<and> (\<forall>k f. (k, f) \<in> set sch \<longrightarrow>
                map_of (ydata doc') k = Some (toY f (seed_value d item k f)))
          \<and> fst ` set (ydata doc') = fst ` set sch"
      by (intro conjI)
  qed
  have b: "ydata doc \<noteq> [] \<longrightarrow> doc' = doc"
    unfolding doc' by (intro impI) (rule seed_if_empty_nonempty)
  have c: "registry' key = Some doc'" unfolding reg by simp
  from a b c show ?thesis by (intro conjI)
qed


text \<open>
  C7.  Opening the collaborative document of a singleton, with the fields of the schema
  distinct as the keys of an object are: when the map \<open>data\<close> of the document found or made
  is empty, one transaction is run, after which every field of the schema holds the
  conversion by \<open>getYjsValFromParsedValue\<close> of its committed value \<open>initialState[key]\<close>, and of
  its default \<open>getInitialPropsValue(field)\<close> when the entry does not exist, and
  the map has no other key; when the map is not empty the document is left as it is.
  The document is registered under the key.
\<close>

theorem seed_on_first_open:
  assumes "distinct (map fst sch)"
    and "doc = (case registry key of Some x \<Rightarrow> x | None \<Rightarrow> y_new_doc)"
    and "open_collab_doc d toY sch item key registry = (registry', doc')"
  shows "(ydata doc = [] \<longrightarrow>
            ytransactions doc' = ytransactions doc @
              [map (\<lambda>(k, f). YSet k (toY f
                 (case item of
                    NotFound \<Rightarrow> getInitialPropsValue d f
                  | Found l \<Rightarrow>
                      (case map_of (li_initialState l) k of None \<Rightarrow> JUndefined | Some v \<Rightarrow> v)))) sch]
          \<and> (\<forall>k f. (k, f) \<in> set sch \<longrightarrow>
                map_of (ydata doc') k =
                  Some (toY f
                    (case item of
                       NotFound \<Rightarrow> getInitialPropsValue d f
                     | Found l \<Rightarrow>
                         (case map_of (li_initialState l) k of None \<Rightarrow> JUndefined | Some v \<Rightarrow> v))))
          \<and> fst ` set (ydata doc') = fst ` set sch)
    \<and> (ydata doc \<noteq> [] \<longrightarrow> doc' = doc)
    \<and> registry' key = Some doc'"
  using open_collab_doc_seeded [OF assms]
  unfolding seed_writes_def seed_value_def js_index_def .

theorem seed_on_first_open_witness:
  "map_of (ydata (snd (open_collab_doc example_deps example_toY [(''theme'', JBytes [0])]
      example_settings (collab_key ''main'' ''settings'') Map.empty))) ''theme''
   = Some (JStr ''dark'')
   \<and> map_of (ydata (snd (open_collab_doc example_deps example_toY [(''theme'', JBytes [0])]
      NotFound (collab_key ''main'' ''settings'') Map.empty))) ''theme''
   = Some (JBytes [0])
   \<and> ytransactions (snd (open_collab_doc example_deps example_toY [(''theme'', JBytes [0])]
      NotFound (collab_key ''main'' ''settings'') Map.empty))
   = [[YSet ''theme'' (JBytes [0])]]"
proof -
  let ?key = "collab_key ''main'' ''settings''"
  let ?sch = "[(''theme'', JBytes [0])] :: (string \<times> jsval) list"
  let ?r = "open_collab_doc example_deps example_toY ?sch example_settings ?key Map.empty"
  let ?n = "open_collab_doc example_deps example_toY ?sch NotFound ?key Map.empty"
  have h1: "distinct (map fst ?sch)" by simp
  have h2: "(y_new_doc :: jsval ydoc) = (case Map.empty ?key of Some x \<Rightarrow> x | None \<Rightarrow> y_new_doc)"
    by simp
  have h3: "?r = (fst ?r, snd ?r)" and h3n: "?n = (fst ?n, snd ?n)" by simp_all
  have e: "ydata (y_new_doc :: jsval ydoc) = []"
    and t: "ytransactions (y_new_doc :: jsval ydoc) = []"
    by (simp_all add: y_new_doc_def)
  note found = mp [OF conjunct1 [OF seed_on_first_open [OF h1 h2 h3]] e]
  note nfound = mp [OF conjunct1 [OF seed_on_first_open [OF h1 h2 h3n]] e]
  from spec [OF spec [OF conjunct1 [OF conjunct2 [OF found]], of "''theme''"], of "JBytes [0]"]
  have a: "map_of (ydata (snd ?r)) ''theme'' = Some (JStr ''dark'')"
    by (simp add: example_toY_def example_settings_def)
  from spec [OF spec [OF conjunct1 [OF conjunct2 [OF nfound]], of "''theme''"], of "JBytes [0]"]
  have b: "map_of (ydata (snd ?n)) ''theme'' = Some (JBytes [0])"
    by (simp add: example_toY_def example_deps_def)
  from conjunct1 [OF nfound]
  have c: "ytransactions (snd ?n) = [[YSet ''theme'' (JBytes [0])]]"
    by (simp add: t example_toY_def example_deps_def)
  from a b c show ?thesis by (intro conjI)
qed

text \<open>
  C9.  The reset of the collaborative page on a schema with the field \<open>count\<close>, whose
  default is 5, and the committed entry \<open>{count: null}\<close>: the transaction writes the default 5,
  not the committed \<open>null\<close>, because \<open>??\<close> takes a \<open>null\<close> field for a missing one; then the
  page waits for \<open>whenSynced\<close> and reloads.  Seeding the document from the same entry, and the
  reset of the local page, restore \<open>null\<close>.
\<close>

theorem collab_reset_null_field:
  "collab_onReset example_deps example_toY [(''count'', JNum 5)] (Some [(''count'', JNull)]) =
     [Transact [YSet ''count'' (JNum 5)], AwaitWhenSynced, WindowReload]
   \<and> seed_writes example_deps example_toY [(''count'', JNum 5)]
       (Found \<lparr>li_initialState = [(''count'', JNull)], li_initialFiles = [''count''],
               li_localTreeKey = Some ''tree-1''\<rparr>) =
     [YSet ''count'' JNull]
   \<and> local_onReset example_deps \<lparr>label = ''Counter'', schema = [(''count'', JNum 5)]\<rparr>
       \<lparr>singleton = ''counter'', config = example_config,
        initialState = Some [(''count'', JNull)], initialFiles = [''count''],
        localTreeKey = Some ''tree-1''\<rparr> =
     \<lparr>st_localTreeKey = Some ''tree-1'', st_state = [(''count'', JNull)]\<rparr>"
  by (simp add: collab_onReset_def reset_writes_def seed_writes_def seed_value_def local_onReset_def
      committed_or_default_def nullish_coalesce_def nullish_def js_index_def
      example_deps_def example_toY_def)

end
